theory Spec2Isabelle
  imports Complex_Main "HOL-Library.Sublist"
begin

section \<open>JavaScript values at the call boundary\<close>

text \<open>
  The arguments of a tool call are untyped (\<^verbatim>\<open>args: any\<close>). A JavaScript number is a
  double: the program only compares numbers and never computes with them, so a finite
  double is modelled by the rational it denotes, next to the three special values.
  Signed zero is the rational 0 (both zeros are falsy and compare equal).
\<close>

datatype jsnum = Fin rat | PosInf | NegInf | NaN

datatype jsval =
    JUndefined
  | JNull
  | JBool bool
  | JNum jsnum
  | JStr string
  | JArr "jsval list"
  | JObj "(string \<times> jsval) list"

datatype jstype = TUndefined | TObject | TBoolean | TNumber | TString

text \<open>\<^verbatim>\<open>typeof v\<close>: null and arrays are objects.\<close>

fun js_typeof :: "jsval \<Rightarrow> jstype" where
  "js_typeof JUndefined = TUndefined"
| "js_typeof JNull = TObject"
| "js_typeof (JBool _) = TBoolean"
| "js_typeof (JNum _) = TNumber"
| "js_typeof (JStr _) = TString"
| "js_typeof (JArr _) = TObject"
| "js_typeof (JObj _) = TObject"

text \<open>
  \<^verbatim>\<open>v.key\<close> for the keys \<^verbatim>\<open>query\<close> and \<^verbatim>\<open>limit\<close>: a property an object does not have
  reads as undefined, and so do these two keys on an array or a primitive. On null and
  undefined the read would throw; the source reads a property only behind
  \<^verbatim>\<open>typeof args === 'object' && args !== null\<close>.
\<close>

fun get_prop :: "jsval \<Rightarrow> string \<Rightarrow> jsval" where
  "get_prop (JObj props) key = (case map_of props key of None \<Rightarrow> JUndefined | Some v \<Rightarrow> v)"
| "get_prop _ key = JUndefined"

text \<open>Truthiness of a number: 0 and NaN are falsy.\<close>

fun num_truthy :: "jsnum \<Rightarrow> bool" where
  "num_truthy (Fin r) = (r \<noteq> 0)"
| "num_truthy NaN = False"
| "num_truthy _ = True"

text \<open>\<^verbatim>\<open>a <= b\<close> on numbers: false as soon as one side is NaN.\<close>

fun num_le :: "jsnum \<Rightarrow> jsnum \<Rightarrow> bool" where
  "num_le NaN _ = False"
| "num_le _ NaN = False"
| "num_le NegInf _ = True"
| "num_le _ PosInf = True"
| "num_le PosInf _ = False"
| "num_le _ NegInf = False"
| "num_le (Fin a) (Fin b) = (a \<le> b)"

text \<open>\<^verbatim>\<open>Math.min(a, b)\<close>: NaN as soon as one argument is NaN.\<close>

fun math_min :: "jsnum \<Rightarrow> jsnum \<Rightarrow> jsnum" where
  "math_min NaN _ = NaN"
| "math_min _ NaN = NaN"
| "math_min NegInf _ = NegInf"
| "math_min _ NegInf = NegInf"
| "math_min PosInf b = b"
| "math_min a PosInf = a"
| "math_min (Fin a) (Fin b) = Fin (min a b)"

section \<open>The parsed document and the selector queries\<close>

text \<open>
  \<^verbatim>\<open>cheerio.load\<close> is a library: its result, the parsed tree, is the document of this
  development. An element has a tag name (lower case, as the parser leaves it), its
  attributes in source order and its children; comments carry no text and match no
  selector, so they are left out.
\<close>

datatype node = Text string | Element string "(string \<times> string) list" "node list"

fun attribs :: "node \<Rightarrow> (string \<times> string) list" where
  "attribs (Text _) = []"
| "attribs (Element _ as _) = as"

fun tag_name :: "node \<Rightarrow> string option" where
  "tag_name (Text _) = None"
| "tag_name (Element t _ _) = Some t"

text \<open>All nodes strictly below a node, in document order (pre-order).\<close>

fun descendants :: "node \<Rightarrow> node list" where
  "descendants (Text _) = []"
| "descendants (Element _ _ cs) = concat (map (\<lambda>c. c # descendants c) cs)"

definition all_nodes :: "node list \<Rightarrow> node list" where
  "all_nodes doc = concat (map (\<lambda>c. c # descendants c) doc)"

text \<open>The text of a node: its text nodes, concatenated in document order.\<close>

fun textContent :: "node \<Rightarrow> string" where
  "textContent (Text s) = s"
| "textContent (Element _ _ cs) = concat (map textContent cs)"

text \<open>The class attribute is a list of names separated by white space.\<close>

definition is_space :: "char \<Rightarrow> bool" where
  "is_space c \<longleftrightarrow>
     c = CHR '' '' \<or> c = CHR 0x09 \<or> c = CHR 0x0A \<or> c = CHR 0x0B \<or> c = CHR 0x0C \<or> c = CHR 0x0D"

fun split_ws :: "string \<Rightarrow> string \<Rightarrow> string list" where
  "split_ws cur [] = (if cur = [] then [] else [cur])"
| "split_ws cur (c # cs) =
     (if is_space c then (if cur = [] then split_ws [] cs else cur # split_ws [] cs)
      else split_ws (cur @ [c]) cs)"

definition class_list :: "node \<Rightarrow> string list" where
  "class_list n = (case map_of (attribs n) ''class'' of None \<Rightarrow> [] | Some v \<Rightarrow> split_ws [] v)"

text \<open>
  The four selectors of the source: \<^verbatim>\<open>'h3'\<close> and \<^verbatim>\<open>'a'\<close> (a tag), \<^verbatim>\<open>'.VwiC3b'\<close> (a class)
  and \<^verbatim>\<open>'div.g'\<close> (a tag with a class).
\<close>

datatype selector = Tag string | Class string | TagClass string string

fun matches :: "selector \<Rightarrow> node \<Rightarrow> bool" where
  "matches (Tag t) n = (tag_name n = Some t)"
| "matches (Class c) n = (tag_name n \<noteq> None \<and> c \<in> set (class_list n))"
| "matches (TagClass t c) n = (tag_name n = Some t \<and> c \<in> set (class_list n))"

text \<open>\<^verbatim>\<open>$(sel)\<close>: every element of the document that matches, in document order.\<close>

definition select :: "node list \<Rightarrow> selector \<Rightarrow> node list" where
  "select doc sel = filter (matches sel) (all_nodes doc)"

text \<open>\<^verbatim>\<open>$(element).find(sel)\<close>: the matching elements strictly below the element.\<close>

definition find_below :: "node \<Rightarrow> selector \<Rightarrow> node list" where
  "find_below element sel = filter (matches sel) (descendants element)"

text \<open>\<^verbatim>\<open>.text()\<close> of a selection: the texts of its elements, concatenated.\<close>

definition text_of :: "node list \<Rightarrow> string" where
  "text_of els = concat (map textContent els)"

text \<open>\<^verbatim>\<open>.attr(name)\<close> of a selection: the attribute of its first element, if any.\<close>

definition attr :: "node list \<Rightarrow> string \<Rightarrow> string option" where
  "attr els name = (case els of [] \<Rightarrow> None | e # _ \<Rightarrow> map_of (attribs e) name)"

definition startsWith :: "string \<Rightarrow> string \<Rightarrow> bool" where
  "startsWith s p \<longleftrightarrow> take (length p) s = p"

text \<open>
  \<^verbatim>\<open>.each(fn)\<close>: calls \<open>fn\<close> on the elements with their index, from 0, and stops as soon
  as \<open>fn\<close> returns \<^verbatim>\<open>false\<close>. The callback's effect on the variables it captures is the
  state \<open>s\<close>; the flag it returns is False for \<^verbatim>\<open>return false\<close>.
\<close>

fun each :: "(nat \<Rightarrow> 'a \<Rightarrow> 's \<Rightarrow> bool \<times> 's) \<Rightarrow> nat \<Rightarrow> 'a list \<Rightarrow> 's \<Rightarrow> 's" where
  "each fn i [] s = s"
| "each fn i (x # xs) s =
     (case fn i x s of (continue, s') \<Rightarrow> if continue then each fn (Suc i) xs s' else s')"

section \<open>The search service\<close>

record SearchResult =
  title :: string
  url :: string
  description :: string

datatype error_code = MethodNotFound | InvalidParams

datatype error = McpError error_code string | AxiosError

text \<open>
  The response envelope \<^verbatim>\<open>{ content: [{ type: 'text', text: JSON.stringify(...) }] }\<close>,
  represented by the value it serialises; the second variant also returns that value as
  \<^verbatim>\<open>structuredContent\<close>.
\<close>

datatype tool_result =
    TextContent "SearchResult list"
  | StructuredContent "SearchResult list" "SearchResult list"

text \<open>
  The outside world: what \<^verbatim>\<open>axios.get\<close> answers for a query (None when it rejects) and
  what \<^verbatim>\<open>cheerio.load\<close> makes of a body. The state records every outbound request.
\<close>

record env =
  http_get :: "string \<Rightarrow> string option"
  cheerio_load :: "string \<Rightarrow> node list"

record world =
  fetched :: "string list"

text \<open>\<^verbatim>\<open>isValidSearchArgs\<close> (first variant).\<close>

definition isValidSearchArgs :: "jsval \<Rightarrow> bool" where
  "isValidSearchArgs args \<longleftrightarrow>
     js_typeof args = TObject \<and>
     args \<noteq> JNull \<and>
     js_typeof (get_prop args ''query'') = TString \<and>
     (get_prop args ''limit'' = JUndefined \<or> js_typeof (get_prop args ''limit'') = TNumber)"

text \<open>The two props of validated arguments, at the types the guard established.\<close>

definition arg_query :: "jsval \<Rightarrow> string" where
  "arg_query args = (case get_prop args ''query'' of JStr q \<Rightarrow> q | _ \<Rightarrow> [])"

definition arg_limit :: "jsval \<Rightarrow> jsnum option" where
  "arg_limit args = (case get_prop args ''limit'' of JNum n \<Rightarrow> Some n | _ \<Rightarrow> None)"

text \<open>\<^verbatim>\<open>limit || 5\<close>.\<close>

definition limit_or_default :: "jsnum option \<Rightarrow> jsnum" where
  "limit_or_default l =
     (case l of None \<Rightarrow> Fin 5 | Some n \<Rightarrow> if num_truthy n then n else Fin 5)"

text \<open>\<^verbatim>\<open>Math.min(request.params.arguments.limit || 5, 10)\<close>.\<close>

definition effective_limit :: "jsval \<Rightarrow> jsnum" where
  "effective_limit args = math_min (limit_or_default (arg_limit args)) (Fin 10)"

text \<open>
  What the body of the \<^verbatim>\<open>each\<close> callback makes of one \<^verbatim>\<open>div.g\<close> block: the record it
  pushes, or None when the condition of its \<^verbatim>\<open>if\<close> fails.
\<close>

definition block_result :: "node \<Rightarrow> SearchResult option" where
  "block_result element =
     (let titleElement = find_below element (Tag ''h3'');
          linkElement = find_below element (Tag ''a'');
          snippetElement = find_below element (Class ''VwiC3b'')
      in case attr linkElement ''href'' of
           None \<Rightarrow> None
         | Some u \<Rightarrow>
             if length titleElement \<noteq> 0 \<and> length linkElement \<noteq> 0 \<and> startsWith u ''http''
             then Some \<lparr>title = text_of titleElement, url = u,
                        description = text_of snippetElement\<rparr>
             else None)"

text \<open>The callback: \<^verbatim>\<open>if (i >= limit) return false;\<close> and then the block.\<close>

definition search_callback ::
  "jsnum \<Rightarrow> nat \<Rightarrow> node \<Rightarrow> SearchResult list \<Rightarrow> bool \<times> SearchResult list" where
  "search_callback limit i element results =
     (if num_le limit (Fin (of_nat i)) then (False, results)
      else case block_result element of
             None \<Rightarrow> (True, results)
           | Some r \<Rightarrow> (True, results @ [r]))"

text \<open>The part of \<^verbatim>\<open>performSearch\<close> after \<^verbatim>\<open>cheerio.load\<close>, first variant.\<close>

definition extractResults :: "node list \<Rightarrow> jsnum \<Rightarrow> SearchResult list" where
  "extractResults doc limit =
     each (search_callback limit) 0 (select doc (TagClass ''div'' ''g'')) []"

definition performSearch ::
  "env \<Rightarrow> string \<Rightarrow> jsnum \<Rightarrow> world \<Rightarrow> (error + SearchResult list) \<times> world" where
  "performSearch e query limit w =
     (let w' = w\<lparr>fetched := fetched w @ [query]\<rparr>
      in case http_get e query of
           None \<Rightarrow> (Inl AxiosError, w')
         | Some body \<Rightarrow> (Inr (extractResults (cheerio_load e body) limit), w'))"

text \<open>The \<^verbatim>\<open>CallToolRequestSchema\<close> handler of the first variant.\<close>

definition callTool ::
  "env \<Rightarrow> string \<Rightarrow> jsval \<Rightarrow> world \<Rightarrow> (error + tool_result) \<times> world" where
  "callTool e name args w =
     (if name \<noteq> ''search''
      then (Inl (McpError MethodNotFound (''Unknown tool: '' @ name)), w)
      else if \<not> isValidSearchArgs args
      then (Inl (McpError InvalidParams ''Invalid search arguments''), w)
      else case performSearch e (arg_query args) (effective_limit args) w of
             (Inl err, w') \<Rightarrow> (Inl err, w')
           | (Inr results, w') \<Rightarrow> (Inr (TextContent results), w'))"

subsection \<open>The second variant\<close>

definition placeholder :: SearchResult where
  "placeholder = \<lparr>title = ''titleElement'', url = ''http://localhost'',
                  description = ''snippetElement.text()''\<rparr>"

text \<open>\<^verbatim>\<open>performSearch\<close> of the second variant: the array starts with one pushed record.\<close>

definition extractResults2 :: "node list \<Rightarrow> jsnum \<Rightarrow> SearchResult list" where
  "extractResults2 doc limit =
     each (search_callback limit) 0 (select doc (TagClass ''div'' ''g'')) [placeholder]"

definition performSearch2 ::
  "env \<Rightarrow> string \<Rightarrow> jsnum \<Rightarrow> world \<Rightarrow> (error + SearchResult list) \<times> world" where
  "performSearch2 e query limit w =
     (let w' = w\<lparr>fetched := fetched w @ [query]\<rparr>
      in case http_get e query of
           None \<Rightarrow> (Inl AxiosError, w')
         | Some body \<Rightarrow> (Inr (extractResults2 (cheerio_load e body) limit), w'))"

text \<open>The callback registered for \<^verbatim>\<open>"search"\<close>: \<^verbatim>\<open>performSearch(query, limit || 5)\<close>.\<close>

definition searchTool2 ::
  "env \<Rightarrow> string \<Rightarrow> jsnum option \<Rightarrow> world \<Rightarrow> (error + tool_result) \<times> world" where
  "searchTool2 e query limit w =
     (case performSearch2 e query (limit_or_default limit) w of
        (Inl err, w') \<Rightarrow> (Inl err, w')
      | (Inr results, w') \<Rightarrow> (Inr (StructuredContent results results), w'))"

section \<open>Auxiliary notions for the statements\<close>

text \<open>
  The number of blocks, out of \<open>n\<close>, that the callback gets past its first line for:
  the indices \<open>i < n\<close> for which \<^verbatim>\<open>i >= limit\<close> is false. They form a prefix, since the
  index only grows.
\<close>

fun scan_count :: "jsnum \<Rightarrow> nat \<Rightarrow> nat" where
  "scan_count (Fin r) n = min n (nat \<lceil>r\<rceil>)"
| "scan_count NegInf n = 0"
| "scan_count PosInf n = n"
| "scan_count NaN n = n"

text \<open>
  The condition of the callback's \<^verbatim>\<open>if\<close>:
  \<^verbatim>\<open>titleElement.length && linkElement.length && url?.startsWith('http')\<close>.
\<close>

definition accepts :: "node \<Rightarrow> bool" where
  "accepts element \<longleftrightarrow>
     length (find_below element (Tag ''h3'')) \<noteq> 0 \<and>
     length (find_below element (Tag ''a'')) \<noteq> 0 \<and>
     (case attr (find_below element (Tag ''a'')) ''href'' of
        None \<Rightarrow> False
      | Some u \<Rightarrow> startsWith u ''http'')"

text \<open>
  The specification's description of a valid payload, in its own words: a structure
  containing a string \<open>query\<close>, with \<open>limit\<close> either absent (or undefined) or numeric.
\<close>

definition has_search_shape :: "jsval \<Rightarrow> bool" where
  "has_search_shape args =
     (case args of
        JObj props \<Rightarrow>
          (case map_of props ''query'' of
             Some (JStr q) \<Rightarrow>
               (case map_of props ''limit'' of
                  None \<Rightarrow> True
                | Some JUndefined \<Rightarrow> True
                | Some (JNum n) \<Rightarrow> True
                | Some _ \<Rightarrow> False)
           | _ \<Rightarrow> False)
      | _ \<Rightarrow> False)"

subsection \<open>Sample documents\<close>

text \<open>
  A block as the results page has them: an anchor around the heading, then the snippet.
\<close>

definition result_block :: "string \<Rightarrow> string \<Rightarrow> string \<Rightarrow> node" where
  "result_block t u d =
     Element ''div'' [(''class'', ''g'')]
       [Element ''a'' [(''href'', u)] [Element ''h3'' [] [Text t]],
        Element ''div'' [(''class'', ''VwiC3b x'')] [Text d]]"

text \<open>A block without an anchor, and a block whose heading has no text.\<close>

definition no_anchor_block :: node where
  "no_anchor_block = Element ''div'' [(''class'', ''g'')] [Element ''h3'' [] [Text ''T'']]"

definition empty_heading_block :: node where
  "empty_heading_block =
     Element ''div'' [(''class'', ''g'')]
       [Element ''a'' [(''href'', ''http://x'')] [Element ''h3'' [] []]]"

definition three_blocks :: "node list" where
  "three_blocks =
     [result_block ''A'' ''http://a'' ''x'', result_block ''B'' ''https://b'' [],
      result_block ''C'' ''http://c'' ''z'']"

definition three_after_malformed :: "node list" where
  "three_after_malformed = no_anchor_block # three_blocks"

text \<open>A world in which every request is answered and the answer parses to \<open>doc\<close>.\<close>

definition fixture_env :: "node list \<Rightarrow> env" where
  "fixture_env doc = \<lparr>http_get = (\<lambda>q. Some ''<html>''), cheerio_load = (\<lambda>body. doc)\<rparr>"

definition search_args :: "string \<Rightarrow> jsnum \<Rightarrow> jsval" where
  "search_args q n = JObj [(''query'', JStr q), (''limit'', JNum n)]"

abbreviation div_g :: selector where
  "div_g \<equiv> TagClass ''div'' ''g''"

section \<open>The loop of the extractor\<close>

lemma stop_scan_count: "num_le limit (Fin (of_nat i)) \<Longrightarrow> scan_count limit m \<le> i"
proof (cases limit)
  case (Fin r)
  assume "num_le limit (Fin (of_nat i))"
  with Fin have "\<lceil>r\<rceil> \<le> int i" by (simp add: ceiling_le_iff)
  with Fin show ?thesis by simp
qed simp_all

lemma go_scan_count: "\<not> num_le limit (Fin (of_nat i)) \<Longrightarrow> i < m \<Longrightarrow> i < scan_count limit m"
proof (cases limit)
  case (Fin r)
  assume "\<not> num_le limit (Fin (of_nat i))" and m: "i < m"
  with Fin have "\<not> \<lceil>r\<rceil> \<le> int i" by (simp add: ceiling_le_iff)
  with Fin m show ?thesis by simp
qed simp_all

text \<open>
  The loop appends, to what the array holds, the records of the accepted blocks among
  the scanned prefix.
\<close>

lemma each_search_callback:
  "each (search_callback limit) i els rs =
     rs @ List.map_filter block_result (take (scan_count limit (i + length els) - i) els)"
proof (induction els arbitrary: i rs)
  case Nil
  show ?case by (simp add: List.map_filter_simps)
next
  case (Cons x xs)
  show ?case
  proof (cases "num_le limit (Fin (of_nat i))")
    case True
    then have "scan_count limit (i + length (x # xs)) - i = 0"
      using stop_scan_count [of limit i] by simp
    with True show ?thesis
      by (simp add: search_callback_def List.map_filter_simps)
  next
    case False
    then have "i < scan_count limit (i + length (x # xs))"
      by (intro go_scan_count) simp_all
    then obtain d where d: "scan_count limit (i + length (x # xs)) - i = Suc d"
      and d': "scan_count limit (Suc i + length xs) - Suc i = d"
      by (cases "scan_count limit (i + length (x # xs)) - i") simp_all
    show ?thesis
      using False Cons.IH [of "Suc i"] d d'
      by (simp add: search_callback_def List.map_filter_simps split: option.split)
  qed
qed

lemma extractResults_eq:
  "extractResults doc limit =
     List.map_filter block_result
       (take (scan_count limit (length (select doc div_g))) (select doc div_g))"
  by (simp add: extractResults_def each_search_callback)

lemma extractResults2_eq:
  "extractResults2 doc limit = placeholder # extractResults doc limit"
  by (simp add: extractResults2_def extractResults_def each_search_callback)

lemma length_map_filter_le: "length (List.map_filter f xs) \<le> length xs"
  by (simp add: List.map_filter_def)

lemma length_extractResults_le:
  "length (extractResults doc limit) \<le> scan_count limit (length (select doc div_g))"
  unfolding extractResults_eq
  by (rule order_trans [OF length_map_filter_le]) simp

lemma set_map_filter: "r \<in> set (List.map_filter f xs) \<longleftrightarrow> (\<exists>x \<in> set xs. f x = Some r)"
  by (induction xs) (auto simp: List.map_filter_simps split: option.splits)

lemma map_Some_map_filter:
  "map Some (List.map_filter f xs) = map f (filter (\<lambda>x. f x \<noteq> None) xs)"
  by (induction xs) (auto simp: List.map_filter_simps split: option.splits)

lemma length_map_filter: "length (List.map_filter f xs) = length (filter (\<lambda>x. f x \<noteq> None) xs)"
  by (simp add: List.map_filter_def)

subsection \<open>One block\<close>

lemma block_result_None_iff: "block_result b = None \<longleftrightarrow> \<not> accepts b"
  by (simp add: block_result_def accepts_def Let_def split: option.splits)

lemma block_result_SomeD:
  assumes "block_result b = Some r"
  shows "accepts b"
    and "attr (find_below b (Tag ''a'')) ''href'' = Some (url r)"
    and "startsWith (url r) ''http''"
    and "title r = text_of (find_below b (Tag ''h3''))"
    and "description r = text_of (find_below b (Class ''VwiC3b''))"
  using assms
  by (auto simp: block_result_def accepts_def Let_def split: option.splits if_splits)

subsection \<open>The handler\<close>

lemma limit_or_default_not_NaN: "limit_or_default l \<noteq> NaN"
proof (cases l)
  case None
  then show ?thesis by (simp add: limit_or_default_def)
next
  case (Some n)
  then show ?thesis by (cases n) (simp_all add: limit_or_default_def)
qed

lemma math_min_ten: "a \<noteq> NaN \<Longrightarrow> num_le (math_min a (Fin 10)) (Fin 10)"
  by (cases a) simp_all

lemma effective_limit_le_ten: "num_le (effective_limit args) (Fin 10)"
  unfolding effective_limit_def by (rule math_min_ten) (rule limit_or_default_not_NaN)

lemma callTool_InrD:
  assumes "callTool e name args w = (Inr (TextContent rs), w')"
  shows "name = ''search''" and "isValidSearchArgs args"
    and "\<exists>body. http_get e (arg_query args) = Some body \<and>
           rs = extractResults (cheerio_load e body) (effective_limit args)"
    and "w' = w\<lparr>fetched := fetched w @ [arg_query args]\<rparr>"
  using assms
  by (auto simp: callTool_def performSearch_def Let_def split: if_splits option.splits)

lemma callTool_search_valid:
  assumes "isValidSearchArgs args"
  shows "callTool e ''search'' args w =
           ((case http_get e (arg_query args) of
               None \<Rightarrow> Inl AxiosError
             | Some body \<Rightarrow>
                 Inr (TextContent (extractResults (cheerio_load e body) (effective_limit args)))),
            w\<lparr>fetched := fetched w @ [arg_query args]\<rparr>)"
  using assms
  by (simp add: callTool_def performSearch_def Let_def split: option.splits)

lemma isValidSearchArgs_shape: "isValidSearchArgs args \<longleftrightarrow> has_search_shape args"
  by (cases args)
     (auto simp: isValidSearchArgs_def has_search_shape_def split: option.splits jsval.splits)

lemma isValidSearchArgs_fields:
  assumes "map_of props ''query'' = Some (JStr q)"
    and "map_of props ''limit'' = None \<or> (\<exists>n. map_of props ''limit'' = Some (JNum n))"
  shows "isValidSearchArgs (JObj props)" and "arg_query (JObj props) = q"
  using assms by (auto simp: isValidSearchArgs_def arg_query_def)

section \<open>The claims\<close>

subsection \<open>C1: the number of results and the effective limit\<close>

text \<open>
  Claim C1, as the code has it (first variant): the effective limit
  \<open>min(requestedLimit or 5, 10)\<close> is at most 10 whatever the caller requested, and a
  successful call returns at most as many records as there are block indices below the
  effective limit, that is its ceiling (none for a negative one). Hence the length is at
  most the effective limit whenever that is a natural number.
\<close>

theorem search_length_bound:
  "num_le (effective_limit args) (Fin 10) \<and>
   (callTool e name args w = (Inr (TextContent rs), w') \<longrightarrow>
      (\<forall>r. effective_limit args = Fin r \<longrightarrow> length rs \<le> nat \<lceil>r\<rceil>) \<and>
      (\<forall>k. effective_limit args = Fin (of_nat k) \<longrightarrow>
           num_le (Fin (of_nat (length rs))) (effective_limit args)) \<and>
      (effective_limit args = NegInf \<longrightarrow> rs = []))"
proof (intro conjI impI allI)
  show "num_le (effective_limit args) (Fin 10)"
    by (rule effective_limit_le_ten)
next
  fix r
  assume call: "callTool e name args w = (Inr (TextContent rs), w')"
    and eff: "effective_limit args = Fin r"
  from callTool_InrD(3) [OF call] obtain body
    where rs: "rs = extractResults (cheerio_load e body) (effective_limit args)" by blast
  have "length rs \<le> scan_count (Fin r) (length (select (cheerio_load e body) div_g))"
    unfolding rs eff by (rule length_extractResults_le)
  then show "length rs \<le> nat \<lceil>r\<rceil>" by simp
next
  fix k
  assume call: "callTool e name args w = (Inr (TextContent rs), w')"
    and eff: "effective_limit args = Fin (of_nat k)"
  from callTool_InrD(3) [OF call] obtain body
    where rs: "rs = extractResults (cheerio_load e body) (effective_limit args)" by blast
  have "length rs \<le> scan_count (Fin (of_nat k)) (length (select (cheerio_load e body) div_g))"
    unfolding rs eff by (rule length_extractResults_le)
  then have "length rs \<le> k" by simp
  then show "num_le (Fin (of_nat (length rs))) (effective_limit args)"
    by (simp add: eff)
next
  assume call: "callTool e name args w = (Inr (TextContent rs), w')"
    and eff: "effective_limit args = NegInf"
  from callTool_InrD(3) [OF call] obtain body
    where rs: "rs = extractResults (cheerio_load e body) (effective_limit args)" by blast
  have "length rs \<le> scan_count NegInf (length (select (cheerio_load e body) div_g))"
    unfolding rs eff by (rule length_extractResults_le)
  then show "rs = []" by simp
qed

theorem search_length_bound_witness:
  "callTool (fixture_env three_blocks) ''search'' (search_args ''q'' (Fin 2)) \<lparr>fetched = []\<rparr> =
     (Inr (TextContent
        [\<lparr>title = ''A'', url = ''http://a'', description = ''x''\<rparr>,
         \<lparr>title = ''B'', url = ''https://b'', description = []\<rparr>]),
      \<lparr>fetched = [''q'']\<rparr>) \<and>
   effective_limit (search_args ''q'' (Fin 2)) = Fin (of_nat 2) \<and>
   num_le (Fin (of_nat (length
        [\<lparr>title = ''A'', url = ''http://a'', description = ''x''\<rparr>,
         \<lparr>title = ''B'', url = ''https://b'', description = []\<rparr>])))
     (effective_limit (search_args ''q'' (Fin 2)))"
proof -
  have call: "callTool (fixture_env three_blocks) ''search'' (search_args ''q'' (Fin 2))
      \<lparr>fetched = []\<rparr> =
     (Inr (TextContent
        [\<lparr>title = ''A'', url = ''http://a'', description = ''x''\<rparr>,
         \<lparr>title = ''B'', url = ''https://b'', description = []\<rparr>]),
      \<lparr>fetched = [''q'']\<rparr>)"
    by code_simp
  have eff: "effective_limit (search_args ''q'' (Fin 2)) = Fin (of_nat 2)"
    by code_simp
  from search_length_bound [of "search_args ''q'' (Fin 2)" "fixture_env three_blocks"
      "''search''" "\<lparr>fetched = []\<rparr>" _ "\<lparr>fetched = [''q'']\<rparr>"] call eff
  show ?thesis by blast
qed

text \<open>
  The claim as stated fails for a fractional limit: with limit 2.5 the callback still
  runs for index 2, and three records come back.
\<close>

theorem search_length_counterexample:
  "callTool (fixture_env three_blocks) ''search'' (search_args ''q'' (Fin (5 / 2)))
      \<lparr>fetched = []\<rparr> =
     (Inr (TextContent
        [\<lparr>title = ''A'', url = ''http://a'', description = ''x''\<rparr>,
         \<lparr>title = ''B'', url = ''https://b'', description = []\<rparr>,
         \<lparr>title = ''C'', url = ''http://c'', description = ''z''\<rparr>]),
      \<lparr>fetched = [''q'']\<rparr>) \<and>
   effective_limit (search_args ''q'' (Fin (5 / 2))) = Fin (5 / 2) \<and>
   \<not> num_le (Fin (of_nat (length
        [\<lparr>title = ''A'', url = ''http://a'', description = ''x''\<rparr>,
         \<lparr>title = ''B'', url = ''https://b'', description = []\<rparr>,
         \<lparr>title = ''C'', url = ''http://c'', description = ''z''\<rparr>])))
     (effective_limit (search_args ''q'' (Fin (5 / 2))))"
  by code_simp

text \<open>
  The second variant returns one record more than the first, whatever the limit.
\<close>

lemma second_variant_length:
  "length (extractResults2 doc limit) = Suc (length (extractResults doc limit))"
  by (simp add: extractResults2_eq)

subsection \<open>C2: which blocks are taken\<close>

text \<open>
  Claim C2, as the code has it: for a limit that is a natural number \<open>k\<close> the loop stops
  once \<open>k\<close> candidate blocks have been examined, accepted or not, so the output is the
  records of the accepted blocks among the first \<open>k\<close> candidates, in document order.
  When the document has at least \<open>k\<close> candidates and the first \<open>k\<close> are all well
  formed, the output has exactly \<open>k\<close> records, those of the first \<open>k\<close> blocks.
\<close>

theorem extract_first_blocks:
  "extractResults doc (Fin (of_nat k)) =
     List.map_filter block_result (take k (select doc div_g)) \<and>
   (k \<le> length (select doc div_g) \<and>
    (\<forall>b \<in> set (take k (select doc div_g)). accepts b) \<longrightarrow>
      length (extractResults doc (Fin (of_nat k))) = k \<and>
      map Some (extractResults doc (Fin (of_nat k))) =
        map block_result (take k (select doc div_g)))"
proof (intro conjI impI)
  show prefix: "extractResults doc (Fin (of_nat k)) =
     List.map_filter block_result (take k (select doc div_g))"
    by (simp add: extractResults_eq min_def)
  assume "k \<le> length (select doc div_g) \<and>
    (\<forall>b \<in> set (take k (select doc div_g)). accepts b)"
  then have k: "k \<le> length (select doc div_g)"
    and all: "\<forall>b \<in> set (take k (select doc div_g)). block_result b \<noteq> None"
    by (simp_all add: block_result_None_iff)
  from all have keep: "filter (\<lambda>b. block_result b \<noteq> None) (take k (select doc div_g)) =
      take k (select doc div_g)"
    by (simp add: filter_id_conv)
  show "map Some (extractResults doc (Fin (of_nat k))) =
      map block_result (take k (select doc div_g))"
    by (simp only: prefix map_Some_map_filter keep)
  show "length (extractResults doc (Fin (of_nat k))) = k"
    using k by (simp only: prefix length_map_filter keep) simp
qed

theorem extract_first_blocks_witness:
  "(2::nat) \<le> length (select three_blocks div_g) \<and>
   list_all accepts (take 2 (select three_blocks div_g)) \<and>
   length (extractResults three_blocks (Fin (of_nat 2))) = 2 \<and>
   extractResults three_blocks (Fin (of_nat 2)) =
     [\<lparr>title = ''A'', url = ''http://a'', description = ''x''\<rparr>,
      \<lparr>title = ''B'', url = ''https://b'', description = []\<rparr>]"
proof -
  have k: "(2::nat) \<le> length (select three_blocks div_g)"
    by code_simp
  have acc: "list_all accepts (take 2 (select three_blocks div_g))"
    by code_simp
  then have all: "\<forall>b \<in> set (take 2 (select three_blocks div_g)). accepts b"
    by (simp only: list_all_iff)
  have res: "List.map_filter block_result (take 2 (select three_blocks div_g)) =
     [\<lparr>title = ''A'', url = ''http://a'', description = ''x''\<rparr>,
      \<lparr>title = ''B'', url = ''https://b'', description = []\<rparr>]"
    by code_simp
  from extract_first_blocks [of three_blocks 2] k all acc res
  show ?thesis by simp
qed

text \<open>
  The claim as stated fails when a malformed block is among the first \<open>limit\<close>
  candidates: the document has three well-formed blocks after a block without an anchor,
  and with limit 2 one record comes back, not two.
\<close>

theorem extract_exactly_limit_counterexample:
  "List.map_filter block_result (select three_after_malformed div_g) =
     [\<lparr>title = ''A'', url = ''http://a'', description = ''x''\<rparr>,
      \<lparr>title = ''B'', url = ''https://b'', description = []\<rparr>,
      \<lparr>title = ''C'', url = ''http://c'', description = ''z''\<rparr>] \<and>
   extractResults three_after_malformed (Fin 2) =
     [\<lparr>title = ''A'', url = ''http://a'', description = ''x''\<rparr>]"
  by code_simp

subsection \<open>C3: what an emitted record holds\<close>

text \<open>
  Claim C3, as the code has it: every emitted record has a url that starts with
  \<open>http\<close> and is the record of a candidate block that has at least one heading element
  and at least one anchor, its title being the text of the headings (which may be empty)
  and its url the href of the first anchor; a block that fails one of the three conditions
  contributes no record, so the output has one record for each accepted block scanned.
\<close>

theorem emitted_record_shape:
  "(\<forall>r \<in> set (extractResults doc limit).
      startsWith (url r) ''http'' \<and>
      (\<exists>b \<in> set (select doc div_g).
         block_result b = Some r \<and>
         find_below b (Tag ''h3'') \<noteq> [] \<and>
         find_below b (Tag ''a'') \<noteq> [] \<and>
         attr (find_below b (Tag ''a'')) ''href'' = Some (url r) \<and>
         title r = text_of (find_below b (Tag ''h3'')) \<and>
         description r = text_of (find_below b (Class ''VwiC3b'')))) \<and>
   (\<forall>b. \<not> accepts b \<longrightarrow> block_result b = None) \<and>
   length (extractResults doc limit) =
     length (filter accepts
       (take (scan_count limit (length (select doc div_g))) (select doc div_g)))"
proof (intro conjI ballI allI impI)
  fix r
  assume "r \<in> set (extractResults doc limit)"
  then obtain b where b: "b \<in> set (take (scan_count limit (length (select doc div_g)))
        (select doc div_g))"
    and r: "block_result b = Some r"
    unfolding extractResults_eq set_map_filter by blast
  from b have mem: "b \<in> set (select doc div_g)"
    by (rule in_set_takeD)
  show "startsWith (url r) ''http''"
    by (rule block_result_SomeD(3) [OF r])
  from block_result_SomeD(1) [OF r]
  have "find_below b (Tag ''h3'') \<noteq> []" and "find_below b (Tag ''a'') \<noteq> []"
    by (simp_all add: accepts_def)
  with mem r block_result_SomeD(2,4,5) [OF r]
  show "\<exists>b \<in> set (select doc div_g).
         block_result b = Some r \<and>
         find_below b (Tag ''h3'') \<noteq> [] \<and>
         find_below b (Tag ''a'') \<noteq> [] \<and>
         attr (find_below b (Tag ''a'')) ''href'' = Some (url r) \<and>
         title r = text_of (find_below b (Tag ''h3'')) \<and>
         description r = text_of (find_below b (Class ''VwiC3b''))"
    by blast
next
  fix b
  assume "\<not> accepts b"
  then show "block_result b = None"
    by (simp add: block_result_None_iff)
next
  show "length (extractResults doc limit) =
     length (filter accepts
       (take (scan_count limit (length (select doc div_g))) (select doc div_g)))"
    by (simp add: extractResults_eq length_map_filter block_result_None_iff)
qed

theorem emitted_record_shape_witness:
  "\<lparr>title = ''A'', url = ''http://a'', description = ''x''\<rparr>
     \<in> set (extractResults three_after_malformed (Fin 2)) \<and>
   startsWith (url \<lparr>title = ''A'', url = ''http://a'', description = ''x''\<rparr>) ''http'' \<and>
   \<not> accepts no_anchor_block \<and>
   block_result no_anchor_block = None"
proof -
  have mem: "\<lparr>title = ''A'', url = ''http://a'', description = ''x''\<rparr>
     \<in> set (extractResults three_after_malformed (Fin 2))"
    by code_simp
  have rej: "\<not> accepts no_anchor_block"
    by code_simp
  from emitted_record_shape [of three_after_malformed "Fin 2"] mem rej
  show ?thesis by blast
qed

text \<open>
  The claim as stated fails on the title: a block whose heading element has no text is
  accepted, and its record has the empty title.
\<close>

theorem nonempty_title_counterexample:
  "extractResults [empty_heading_block] (Fin 5) =
     [\<lparr>title = [], url = ''http://x'', description = []\<rparr>]"
  by code_simp

subsection \<open>C4: order and determinism\<close>

text \<open>
  Claim C4: the records of the output are the records of a subsequence of the candidate
  blocks, in document order, and the output is a function of the document and the limit
  alone: whatever the state of the world, \<^verbatim>\<open>performSearch\<close> returns the extraction of the
  parsed body. The second variant returns the same records in the same order, after its
  leading record.
\<close>

theorem output_in_document_order:
  "(\<exists>bs. subseq bs (select doc div_g) \<and>
         map block_result bs = map Some (extractResults doc limit)) \<and>
   extractResults2 doc limit = placeholder # extractResults doc limit \<and>
   (http_get e q = Some body \<longrightarrow>
      fst (performSearch e q limit w) = Inr (extractResults (cheerio_load e body) limit) \<and>
      fst (performSearch2 e q limit w) = Inr (extractResults2 (cheerio_load e body) limit))"
proof (intro conjI impI)
  let ?scanned = "take (scan_count limit (length (select doc div_g))) (select doc div_g)"
  let ?bs = "filter (\<lambda>b. block_result b \<noteq> None) ?scanned"
  have "subseq ?bs ?scanned" by (rule subseq_filter_left)
  also have "subseq ?scanned (select doc div_g)" by (rule prefix_imp_subseq [OF take_is_prefix])
  finally have "subseq ?bs (select doc div_g)" .
  moreover have "map block_result ?bs = map Some (extractResults doc limit)"
    by (simp only: extractResults_eq map_Some_map_filter)
  ultimately show "\<exists>bs. subseq bs (select doc div_g) \<and>
         map block_result bs = map Some (extractResults doc limit)"
    by blast
next
  show "extractResults2 doc limit = placeholder # extractResults doc limit"
    by (rule extractResults2_eq)
next
  assume "http_get e q = Some body"
  then show "fst (performSearch e q limit w) =
      Inr (extractResults (cheerio_load e body) limit)"
    by (simp add: performSearch_def Let_def)
next
  assume "http_get e q = Some body"
  then show "fst (performSearch2 e q limit w) =
      Inr (extractResults2 (cheerio_load e body) limit)"
    by (simp add: performSearch2_def Let_def)
qed

theorem output_in_document_order_witness:
  "http_get (fixture_env three_after_malformed) ''q'' = Some ''<html>'' \<and>
   fst (performSearch (fixture_env three_after_malformed) ''q'' (Fin 3) \<lparr>fetched = [''p'']\<rparr>) =
     Inr [\<lparr>title = ''A'', url = ''http://a'', description = ''x''\<rparr>,
          \<lparr>title = ''B'', url = ''https://b'', description = []\<rparr>] \<and>
   fst (performSearch2 (fixture_env three_after_malformed) ''q'' (Fin 3) \<lparr>fetched = []\<rparr>) =
     Inr [placeholder,
          \<lparr>title = ''A'', url = ''http://a'', description = ''x''\<rparr>,
          \<lparr>title = ''B'', url = ''https://b'', description = []\<rparr>]"
proof -
  have get: "http_get (fixture_env three_after_malformed) ''q'' = Some ''<html>''"
    by (simp add: fixture_env_def)
  have load: "cheerio_load (fixture_env three_after_malformed) ''<html>'' = three_after_malformed"
    by (simp add: fixture_env_def)
  have res: "extractResults three_after_malformed (Fin 3) =
     [\<lparr>title = ''A'', url = ''http://a'', description = ''x''\<rparr>,
      \<lparr>title = ''B'', url = ''https://b'', description = []\<rparr>]"
    by code_simp
  from output_in_document_order [of three_after_malformed "Fin 3"
      "fixture_env three_after_malformed" "''q''" "''<html>''" "\<lparr>fetched = [''p'']\<rparr>"]
    output_in_document_order [of three_after_malformed "Fin 3"
      "fixture_env three_after_malformed" "''q''" "''<html>''" "\<lparr>fetched = []\<rparr>"]
    get load res
  show ?thesis by simp
qed

subsection \<open>C5: a document without candidate blocks\<close>

text \<open>
  In the first variant a document without candidate blocks gives the empty sequence.
\<close>

lemma extractResults_no_candidates:
  "select doc div_g = [] \<Longrightarrow> extractResults doc limit = []"
  by (simp add: extractResults_def)

lemma select_empty_document: "select [] sel = []"
  by (simp add: select_def all_nodes_def)

text \<open>
  Claim C5 fails in the second variant: on the empty document, which has no candidate
  block, its \<^verbatim>\<open>performSearch\<close> returns one record, the one it pushes before the loop,
  where the first variant returns the empty sequence.
\<close>

theorem empty_document_second_variant:
  "select [] div_g = [] \<and>
   extractResults [] (Fin 5) = [] \<and>
   extractResults2 [] (Fin 5) =
     [\<lparr>title = ''titleElement'', url = ''http://localhost'',
       description = ''snippetElement.text()''\<rparr>] \<and>
   searchTool2 (fixture_env []) ''q'' None \<lparr>fetched = []\<rparr> =
     (Inr (StructuredContent
        [\<lparr>title = ''titleElement'', url = ''http://localhost'',
          description = ''snippetElement.text()''\<rparr>]
        [\<lparr>title = ''titleElement'', url = ''http://localhost'',
          description = ''snippetElement.text()''\<rparr>]),
      \<lparr>fetched = [''q'']\<rparr>)"
  by code_simp

subsection \<open>C6: invalid arguments\<close>

text \<open>
  Claim C6: a call to the search tool whose payload is not a structure containing a
  string query (with limit absent or numeric), a missing query included, fails with
  InvalidParams, and the fetcher performs no network call: the world is as it was, with
  no request sent. Whatever the operation name, such a payload sends no request.
\<close>

theorem invalid_arguments_rejected:
  "\<not> has_search_shape args \<Longrightarrow>
     callTool e ''search'' args w =
       (Inl (McpError InvalidParams ''Invalid search arguments''), w) \<and>
     fetched (snd (callTool e name args w)) = fetched w"
  by (simp add: callTool_def isValidSearchArgs_shape)

theorem invalid_arguments_rejected_witness:
  "\<not> has_search_shape (JObj [(''limit'', JNum (Fin 3))]) \<and>
   callTool (fixture_env three_blocks) ''search'' (JObj [(''limit'', JNum (Fin 3))])
       \<lparr>fetched = []\<rparr> =
     (Inl (McpError InvalidParams ''Invalid search arguments''), \<lparr>fetched = []\<rparr>) \<and>
   fetched (snd (callTool (fixture_env three_blocks) ''search''
       (JObj [(''limit'', JNum (Fin 3))]) \<lparr>fetched = []\<rparr>)) = []"
proof -
  have shape: "\<not> has_search_shape (JObj [(''limit'', JNum (Fin 3))])"
    by (simp add: has_search_shape_def)
  from invalid_arguments_rejected [OF shape, of "fixture_env three_blocks"
      "\<lparr>fetched = []\<rparr>" "''search''"] shape
  show ?thesis by simp
qed

subsection \<open>C7: an unknown operation\<close>

text \<open>
  Claim C7: a call whose operation name is not \<open>search\<close> fails with MethodNotFound, and
  the search service is not invoked: the world is as it was, with no request sent.
\<close>

theorem unknown_tool_rejected:
  "name \<noteq> ''search'' \<Longrightarrow>
     callTool e name args w = (Inl (McpError MethodNotFound (''Unknown tool: '' @ name)), w)"
  by (simp add: callTool_def)

theorem unknown_tool_rejected_witness:
  "''Search'' \<noteq> ''search'' \<and>
   callTool (fixture_env three_blocks) ''Search'' (search_args ''q'' (Fin 3)) \<lparr>fetched = []\<rparr> =
     (Inl (McpError MethodNotFound ''Unknown tool: Search''), \<lparr>fetched = []\<rparr>)"
proof -
  have ne: "''Search'' \<noteq> ''search''" by simp
  from unknown_tool_rejected [OF ne, of "fixture_env three_blocks" "search_args ''q'' (Fin 3)"
      "\<lparr>fetched = []\<rparr>"] ne
  show ?thesis by simp
qed

subsection \<open>C8: the empty query\<close>

text \<open>
  Claim C8, as the code has it: a request whose query is the empty string passes
  validation, which only asks for a string, and the fetcher is invoked once, with the
  empty query.
\<close>

theorem empty_query_accepted:
  "map_of props ''query'' = Some (JStr []) \<Longrightarrow>
   map_of props ''limit'' = None \<or> (\<exists>n. map_of props ''limit'' = Some (JNum n)) \<Longrightarrow>
     isValidSearchArgs (JObj props) \<and>
     fetched (snd (callTool e ''search'' (JObj props) w)) = fetched w @ [[]]"
proof -
  assume q: "map_of props ''query'' = Some (JStr [])"
    and l: "map_of props ''limit'' = None \<or> (\<exists>n. map_of props ''limit'' = Some (JNum n))"
  have valid: "isValidSearchArgs (JObj props)" and query: "arg_query (JObj props) = []"
    by (rule isValidSearchArgs_fields [OF q l])+
  show ?thesis
    by (simp add: valid callTool_search_valid [OF valid] query)
qed

theorem empty_query_accepted_witness:
  "map_of [(''query'', JStr [])] ''query'' = Some (JStr []) \<and>
   map_of [(''query'', JStr [])] ''limit'' = (None :: jsval option) \<and>
   isValidSearchArgs (JObj [(''query'', JStr [])]) \<and>
   fetched (snd (callTool (fixture_env three_blocks) ''search'' (JObj [(''query'', JStr [])])
      \<lparr>fetched = []\<rparr>)) = [[]]"
proof -
  have q: "map_of [(''query'', JStr [])] ''query'' = Some (JStr [])" by simp
  have l: "map_of [(''query'', JStr [])] ''limit'' = (None :: jsval option)" by simp
  then have l': "map_of [(''query'', JStr [])] ''limit'' = None \<or>
      (\<exists>n. map_of [(''query'', JStr [])] ''limit'' = Some (JNum n))" ..
  from empty_query_accepted [OF q l', of "fixture_env three_blocks" "\<lparr>fetched = []\<rparr>"] q l
  show ?thesis by simp
qed

text \<open>
  The claim as stated fails: the empty query is valid, and the request goes out.
\<close>

theorem empty_query_counterexample:
  "isValidSearchArgs (JObj [(''query'', JStr [])]) \<and>
   callTool (fixture_env three_blocks) ''search'' (JObj [(''query'', JStr [])])
       \<lparr>fetched = []\<rparr> =
     (Inr (TextContent
        [\<lparr>title = ''A'', url = ''http://a'', description = ''x''\<rparr>,
         \<lparr>title = ''B'', url = ''https://b'', description = []\<rparr>,
         \<lparr>title = ''C'', url = ''http://c'', description = ''z''\<rparr>]),
      \<lparr>fetched = [[]]\<rparr>)"
  by code_simp

subsection \<open>C9: the leading record of the second variant\<close>

text \<open>
  Claim C9: in the second variant \<^verbatim>\<open>performSearch\<close> pushes a fixed record before it
  scans any block, so for every document and limit its output is not empty and starts
  with that record; so does what it returns whenever the request is answered.
\<close>

theorem second_variant_leading_record:
  "extractResults2 doc limit \<noteq> [] \<and>
   hd (extractResults2 doc limit) =
     \<lparr>title = ''titleElement'', url = ''http://localhost'',
      description = ''snippetElement.text()''\<rparr> \<and>
   (http_get e q = Some body \<longrightarrow>
      (\<exists>rest. performSearch2 e q limit w =
         (Inr (\<lparr>title = ''titleElement'', url = ''http://localhost'',
                description = ''snippetElement.text()''\<rparr> # rest),
          w\<lparr>fetched := fetched w @ [q]\<rparr>)))"
  by (simp add: extractResults2_eq performSearch2_def Let_def placeholder_def)

theorem second_variant_leading_record_witness:
  "http_get (fixture_env []) ''q'' = Some ''<html>'' \<and>
   extractResults2 [] (Fin 5) \<noteq> [] \<and>
   hd (extractResults2 three_blocks (Fin 1)) =
     \<lparr>title = ''titleElement'', url = ''http://localhost'',
      description = ''snippetElement.text()''\<rparr> \<and>
   (\<exists>rest. performSearch2 (fixture_env []) ''q'' (Fin 5) \<lparr>fetched = []\<rparr> =
      (Inr (\<lparr>title = ''titleElement'', url = ''http://localhost'',
             description = ''snippetElement.text()''\<rparr> # rest),
       \<lparr>fetched = [''q'']\<rparr>))"
proof -
  have get: "http_get (fixture_env []) ''q'' = Some ''<html>''"
    by (simp add: fixture_env_def)
  from second_variant_leading_record [of "[]" "Fin 5" "fixture_env []" "''q''" "''<html>''"
      "\<lparr>fetched = []\<rparr>"]
    second_variant_leading_record [of three_blocks "Fin 1"] get
  show ?thesis by simp
qed

subsection \<open>C10: a zero or negative limit\<close>

lemma effective_limit_omitted:
  "map_of props ''limit'' = None \<Longrightarrow> effective_limit (JObj props) = Fin 5"
  by (simp add: effective_limit_def arg_limit_def limit_or_default_def)

lemma effective_limit_zero:
  "map_of props ''limit'' = Some (JNum (Fin 0)) \<Longrightarrow> effective_limit (JObj props) = Fin 5"
  by (simp add: effective_limit_def arg_limit_def limit_or_default_def)

lemma effective_limit_negative:
  "map_of props ''limit'' = Some (JNum (Fin r)) \<Longrightarrow> r < 0 \<Longrightarrow>
     effective_limit (JObj props) = Fin r"
  by (simp add: effective_limit_def arg_limit_def limit_or_default_def)

lemma effective_limit_NegInf:
  "map_of props ''limit'' = Some (JNum NegInf) \<Longrightarrow> effective_limit (JObj props) = NegInf"
  by (simp add: effective_limit_def arg_limit_def limit_or_default_def)

lemma extractResults_negative:
  assumes "n = NegInf \<or> (\<exists>r. n = Fin r \<and> r < 0)"
  shows "extractResults doc n = []"
proof -
  from assms have "scan_count n (length (select doc div_g)) = 0"
  proof
    assume "n = NegInf"
    then show ?thesis by simp
  next
    assume "\<exists>r. n = Fin r \<and> r < 0"
    then obtain r where n: "n = Fin r" and r: "r < 0" by blast
    from r have "\<lceil>r\<rceil> \<le> 0" by (simp add: ceiling_le_iff)
    with n show ?thesis by simp
  qed
  then show ?thesis by (simp add: extractResults_eq List.map_filter_simps)
qed

text \<open>
  Claim C10 (first variant): with a string query, a limit of 0 passes validation and the
  effective limit is 5, as it is when the limit is omitted; a negative limit passes
  validation too, extraction accepts no block for it, and the call returns the empty
  sequence, not an error, once the request is answered.
\<close>

theorem zero_and_negative_limit:
  "map_of props ''query'' = Some (JStr q) \<Longrightarrow>
     (map_of props ''limit'' = Some (JNum (Fin 0)) \<longrightarrow>
        isValidSearchArgs (JObj props) \<and>
        effective_limit (JObj props) = Fin 5) \<and>
     (map_of props' ''limit'' = None \<longrightarrow> effective_limit (JObj props') = Fin 5) \<and>
     (map_of props ''limit'' = Some (JNum n) \<and> (n = NegInf \<or> (\<exists>r. n = Fin r \<and> r < 0)) \<longrightarrow>
        isValidSearchArgs (JObj props) \<and>
        effective_limit (JObj props) = n \<and>
        extractResults doc (effective_limit (JObj props)) = [] \<and>
        (http_get e q = Some body \<longrightarrow>
           callTool e ''search'' (JObj props) w =
             (Inr (TextContent []), w\<lparr>fetched := fetched w @ [q]\<rparr>)))"
proof (intro conjI impI)
  assume q: "map_of props ''query'' = Some (JStr q)"
  {
    assume l: "map_of props ''limit'' = Some (JNum (Fin 0))"
    then have "map_of props ''limit'' = None \<or> (\<exists>n. map_of props ''limit'' = Some (JNum n))"
      by blast
    then show "isValidSearchArgs (JObj props)"
      by (rule isValidSearchArgs_fields(1) [OF q])
    from l show "effective_limit (JObj props) = Fin 5"
      by (rule effective_limit_zero)
  }
  {
    assume "map_of props' ''limit'' = None"
    then show "effective_limit (JObj props') = Fin 5"
      by (rule effective_limit_omitted)
  }
  {
    assume neg: "map_of props ''limit'' = Some (JNum n) \<and>
      (n = NegInf \<or> (\<exists>r. n = Fin r \<and> r < 0))"
    then have l: "map_of props ''limit'' = None \<or> (\<exists>n. map_of props ''limit'' = Some (JNum n))"
      by blast
    show valid: "isValidSearchArgs (JObj props)"
      by (rule isValidSearchArgs_fields(1) [OF q l])
    have query: "arg_query (JObj props) = q"
      by (rule isValidSearchArgs_fields(2) [OF q l])
    from neg show eff: "effective_limit (JObj props) = n"
      by (auto simp: effective_limit_negative effective_limit_NegInf)
    from neg show empty: "extractResults doc (effective_limit (JObj props)) = []"
      by (simp only: eff extractResults_negative)
    assume "http_get e q = Some body"
    moreover from neg have "extractResults (cheerio_load e body) n = []"
      by (simp only: extractResults_negative)
    ultimately show "callTool e ''search'' (JObj props) w =
        (Inr (TextContent []), w\<lparr>fetched := fetched w @ [q]\<rparr>)"
      by (simp add: callTool_search_valid [OF valid] query eff)
  }
qed

theorem zero_and_negative_limit_witness:
  "map_of [(''query'', JStr ''q''), (''limit'', JNum (Fin 0))] ''query'' = Some (JStr ''q'') \<and>
   isValidSearchArgs (search_args ''q'' (Fin 0)) \<and>
   effective_limit (search_args ''q'' (Fin 0)) = Fin 5 \<and>
   effective_limit (JObj [(''query'', JStr ''q'')]) = Fin 5 \<and>
   isValidSearchArgs (search_args ''q'' (Fin (- 3))) \<and>
   effective_limit (search_args ''q'' (Fin (- 3))) = Fin (- 3) \<and>
   extractResults three_blocks (effective_limit (search_args ''q'' (Fin (- 3)))) = [] \<and>
   callTool (fixture_env three_blocks) ''search'' (search_args ''q'' (Fin (- 3)))
       \<lparr>fetched = []\<rparr> =
     (Inr (TextContent []), \<lparr>fetched = [''q'']\<rparr>)"
proof -
  have get: "http_get (fixture_env three_blocks) ''q'' = Some ''<html>''"
    by (simp add: fixture_env_def)
  have q0: "map_of [(''query'', JStr ''q''), (''limit'', JNum (Fin 0))] ''query'' =
      Some (JStr ''q'')"
    by simp
  have q3: "map_of [(''query'', JStr ''q''), (''limit'', JNum (Fin (- 3)))] ''query'' =
      Some (JStr ''q'')"
    by simp
  have l3: "map_of [(''query'', JStr ''q''), (''limit'', JNum (Fin (- 3)))] ''limit'' =
      Some (JNum (Fin (- 3))) \<and> (Fin (- 3) = NegInf \<or> (\<exists>r. Fin (- 3) = Fin r \<and> r < 0))"
    by simp
  have zero: "isValidSearchArgs (search_args ''q'' (Fin 0)) \<and>
      effective_limit (search_args ''q'' (Fin 0)) = Fin 5 \<and>
      effective_limit (JObj [(''query'', JStr ''q'')]) = Fin 5"
    using zero_and_negative_limit [OF q0, of "[(''query'', JStr ''q'')]" NaN "[]"
        "fixture_env []" "[]" "\<lparr>fetched = []\<rparr>"]
    by (simp add: search_args_def)
  have negative: "isValidSearchArgs (search_args ''q'' (Fin (- 3))) \<and>
      effective_limit (search_args ''q'' (Fin (- 3))) = Fin (- 3) \<and>
      extractResults three_blocks (effective_limit (search_args ''q'' (Fin (- 3)))) = [] \<and>
      callTool (fixture_env three_blocks) ''search'' (search_args ''q'' (Fin (- 3)))
          \<lparr>fetched = []\<rparr> =
        (Inr (TextContent []), \<lparr>fetched = [''q'']\<rparr>)"
    using zero_and_negative_limit [OF q3, of "[]" "Fin (- 3)" three_blocks
        "fixture_env three_blocks" "''<html>''" "\<lparr>fetched = []\<rparr>"] l3 get
    unfolding search_args_def by fastforce
  from q0 zero negative show ?thesis by blast
qed

end
